theory Spec2Isabelle
  imports Complex_Main "HOL-Library.Sublist"
begin

text \<open>
  A model of \<open>bfm.py\<close>, the build and flash manager: the version stamper, the binary
  locator, the archiver, the configuration and the pipeline of \<open>main\<close>, each function
  translated from its source lines.  A run starts from the parsed command line.  The file
  system is a value that the functions read and return changed; the build tool and the
  flashing tool are parameters.  What the program prints is left out.
\<close>

section \<open>Python values used by bfm.py\<close>

text \<open>
  Strings are lists of characters; a character is a code point below 256.  Exceptions are
  values: a function that can raise returns \<open>exn + 'a\<close>, with \<open>Inl\<close> the exception raised.
  \<open>FileNotFoundError\<close> and \<open>SameFileError\<close> are subclasses of \<open>OSError\<close> (\<open>IOError\<close> is
  an alias of \<open>OSError\<close>), and every exception below is an \<open>Exception\<close>.
\<close>

datatype exn =
    FileNotFoundError string
  | OSError string
  | SameFileError
  | ValueError string
  | RuntimeError string
  | EOFError

fun is_OSError :: "exn \<Rightarrow> bool" where
  "is_OSError (FileNotFoundError _) = True"
| "is_OSError (OSError _) = True"
| "is_OSError SameFileError = True"
| "is_OSError _ = False"

subsection \<open>String methods\<close>

definition newline :: char where
  "newline = CHR 0x0A"

text \<open>\<open>str.isspace\<close> on code points below 256, the characters \<open>str.strip()\<close> removes.\<close>

definition py_isspace :: "char \<Rightarrow> bool" where
  "py_isspace c = ((of_char c :: nat) \<in> set [9, 10, 11, 12, 13, 28, 29, 30, 31, 32, 133, 160])"

definition py_strip :: "string \<Rightarrow> string" where
  "py_strip s = rev (dropWhile py_isspace (rev (dropWhile py_isspace s)))"

text \<open>\<open>str.lower\<close> on code points below 256.\<close>

definition py_lower_char :: "char \<Rightarrow> char" where
  "py_lower_char c =
     (let n = (of_char c :: nat)
      in if (65 \<le> n \<and> n \<le> 90) \<or> (192 \<le> n \<and> n \<le> 222 \<and> n \<noteq> 215)
         then char_of (n + 32) else c)"

definition py_lower :: "string \<Rightarrow> string" where
  "py_lower s = map py_lower_char s"

text \<open>\<open>sub in s\<close>: \<open>sub\<close> occurs in \<open>s\<close> as a contiguous substring.\<close>

fun py_in :: "string \<Rightarrow> string \<Rightarrow> bool" where
  "py_in sub [] = (sub = [])"
| "py_in sub (c # cs) = (prefix sub (c # cs) \<or> py_in sub cs)"

text \<open>
  \<open>s.replace(old, new)\<close>: every non-overlapping occurrence of \<open>old\<close>, from the left.
  With an empty \<open>old\<close>, \<open>new\<close> is inserted before every character and at the end.
\<close>

function py_replace :: "string \<Rightarrow> string \<Rightarrow> string \<Rightarrow> string" where
  "py_replace old new s =
     (if old = [] then new @ concat (map (\<lambda>c. c # new) s)
      else if s = [] then []
      else if prefix old s then new @ py_replace old new (drop (length old) s)
      else hd s # py_replace old new (tl s))"
  by pat_completeness auto
termination
  by (relation "measure (\<lambda>(old, new, s). length s)") auto

declare py_replace.simps [simp del]

subsection \<open>Hexadecimal text (lines 87-95)\<close>

definition hex_char :: "nat \<Rightarrow> char" where
  "hex_char d = char_of (if d < 10 then 48 + d else 55 + d)"

function hex_digits :: "nat \<Rightarrow> string" where
  "hex_digits n = (if n < 16 then [hex_char n] else hex_digits (n div 16) @ [hex_char (n mod 16)])"
  by pat_completeness auto
termination
  by (relation "measure id") auto

declare hex_digits.simps [simp del]

text \<open>
  The format specification \<open>02X\<close>: upper-case hexadecimal digits, padded with zeros after the
  sign to a width of two.
\<close>

definition format_02X :: "int \<Rightarrow> string" where
  "format_02X v =
     (if v < 0 then CHR ''-'' # hex_digits (nat (- v))
      else (let ds = hex_digits (nat v) in replicate (2 - length ds) CHR ''0'' @ ds))"

definition format_hex :: "int \<Rightarrow> bool \<Rightarrow> string" where
  "format_hex v reverse = (let hex_str = format_02X v in if reverse then hex_str else hex_str)"

text \<open>
  \<open>int(hex_str, 16)\<close>: optional white space around the literal, an optional sign, an
  optional \<open>0x\<close> or \<open>0X\<close> prefix (one underscore may follow it), then hexadecimal digits
  with single underscores between digits.  Anything else raises \<open>ValueError\<close>.
\<close>

definition hex_digit_value :: "char \<Rightarrow> nat option" where
  "hex_digit_value c =
     (let n = (of_char c :: nat)
      in if 48 \<le> n \<and> n \<le> 57 then Some (n - 48)
         else if 65 \<le> n \<and> n \<le> 70 then Some (n - 55)
         else if 97 \<le> n \<and> n \<le> 102 then Some (n - 87)
         else None)"

definition int_isspace :: "char \<Rightarrow> bool" where
  "int_isspace c = ((of_char c :: nat) \<in> set [9, 10, 11, 12, 13, 32, 133, 160])"

fun digits_ok :: "bool \<Rightarrow> string \<Rightarrow> bool" where
  "digits_ok prev_us [] = (\<not> prev_us)"
| "digits_ok prev_us (c # cs) =
     (if c = CHR ''_'' then \<not> prev_us \<and> digits_ok True cs else digits_ok False cs)"

text \<open>The value of a run of digits and underscores; an underscore adds nothing.\<close>

definition hex_value :: "string \<Rightarrow> int" where
  "hex_value ds =
     foldl (\<lambda>a c. case hex_digit_value c of Some d \<Rightarrow> 16 * a + int d | None \<Rightarrow> a) 0 ds"

definition int_base16 :: "string \<Rightarrow> exn + int" where
  "int_base16 s =
     (let s1 = dropWhile int_isspace s;
          neg = (s1 \<noteq> [] \<and> hd s1 = CHR ''-'');
          s2 = (if s1 \<noteq> [] \<and> (hd s1 = CHR ''+'' \<or> hd s1 = CHR ''-'') then tl s1 else s1);
          s3 = (if prefix ''0x'' s2 \<or> prefix ''0X'' s2
                then (let r = drop 2 s2 in if prefix ''_'' r then tl r else r)
                else s2);
          ds = takeWhile (\<lambda>c. hex_digit_value c \<noteq> None \<or> c = CHR ''_'') s3;
          rest = dropWhile (\<lambda>c. hex_digit_value c \<noteq> None \<or> c = CHR ''_'') s3
      in if prefix ''_'' s3 \<or> ds = [] \<or> \<not> digits_ok False ds \<or> dropWhile int_isspace rest \<noteq> []
         then Inl (ValueError ''invalid literal for int() with base 16'')
         else Inr ((if neg then - 1 else 1) * hex_value ds))"

definition decode_hex :: "string \<Rightarrow> exn + int" where
  "decode_hex hex_str = int_base16 hex_str"


section \<open>The version stamper (lines 98-138)\<close>

text \<open>
  A text file is the string Python reads from it and writes to it (the codec and the
  translation of line ends are taken as the identity).  \<open>readlines\<close> cuts the text after
  every newline; \<open>writelines\<close> concatenates.
\<close>

fun readlines_from :: "string \<Rightarrow> string \<Rightarrow> string list" where
  "readlines_from cur [] = (if cur = [] then [] else [rev cur])"
| "readlines_from cur (c # cs) =
     (if c = newline then rev (c # cur) # readlines_from [] cs else readlines_from (c # cur) cs)"

definition readlines :: "string \<Rightarrow> string list" where
  "readlines text = readlines_from [] text"

definition writelines :: "string list \<Rightarrow> string" where
  "writelines lines = concat lines"

definition marker :: string where
  "marker = ''VERSION_FEATURE''"

text \<open>
  \<open>re.search(r'VERSION_FEATURE.*?=(.+)', line)\<close>, returning group 1.  After an occurrence
  of the marker the lazy \<open>.*?\<close> stops at the first \<open>=\<close> that is followed by a character other
  than a newline; the greedy group then runs to the next newline or the end.  The dot does
  not match a newline.  When no such \<open>=\<close> follows this occurrence, the search goes on with
  the next start position.
\<close>

fun match_lazy :: "string \<Rightarrow> string option" where
  "match_lazy [] = None"
| "match_lazy (c # cs) =
     (if c = CHR ''='' \<and> takeWhile (\<lambda>x. x \<noteq> newline) cs \<noteq> []
      then Some (takeWhile (\<lambda>x. x \<noteq> newline) cs)
      else if c = newline then None
      else match_lazy cs)"

fun re_search_version :: "string \<Rightarrow> string option" where
  "re_search_version [] = None"
| "re_search_version (c # cs) =
     (if prefix marker (c # cs)
      then (case match_lazy (drop (length marker) (c # cs)) of
              Some g \<Rightarrow> Some g
            | None \<Rightarrow> re_search_version cs)
      else re_search_version cs)"

text \<open>Lines 109-115: the first line that has the marker and \<open>=\<close> and that the pattern matches.\<close>

fun find_curr_version_str :: "string list \<Rightarrow> string option" where
  "find_curr_version_str [] = None"
| "find_curr_version_str (line # lines) =
     (if py_in marker line \<and> py_in ''='' line
      then (case re_search_version line of
              Some g \<Rightarrow> Some (py_strip g)
            | None \<Rightarrow> find_curr_version_str lines)
      else find_curr_version_str lines)"

text \<open>Lines 122-125.\<close>

definition new_version_of :: "int \<Rightarrow> int option \<Rightarrow> int" where
  "new_version_of curr_version version =
     (case version of
        None \<Rightarrow> (curr_version - 1) mod 100
      | Some v \<Rightarrow> v mod 100)"

text \<open>Lines 130-135.\<close>

definition update_lines :: "string list \<Rightarrow> string \<Rightarrow> int \<Rightarrow> string list" where
  "update_lines lines curr_version_str new_version =
     map (\<lambda>line. if py_in marker line
                  then py_replace curr_version_str (format_hex new_version True) line
                  else line) lines"

section \<open>The file system\<close>

text \<open>
  The file system maps a path to what is there: a regular file with its text and
  modification time, or a directory with the names a scan of it yields (in scan order),
  its size and its modification time.  A name listed in a directory with nothing at the
  joined path is an entry that cannot be examined (a dangling link, or a file removed after
  the scan): \<open>os.stat\<close> raises there.  Paths are compared as strings.  \<open>st_mtime\<close> is a finite
  float, of which only the order is used; it is modelled as a rational.
\<close>

type_synonym path = string

datatype node =
    File string rat
  | Dir "string list" nat rat

type_synonym filesystem = "path \<Rightarrow> node option"

record stat_result =
  st_size :: nat
  st_mtime :: rat

definition os_path_exists :: "filesystem \<Rightarrow> path \<Rightarrow> bool" where
  "os_path_exists fs p = (fs p \<noteq> None)"

definition os_path_isdir :: "filesystem \<Rightarrow> path \<Rightarrow> bool" where
  "os_path_isdir fs p = (case fs p of Some (Dir _ _ _) \<Rightarrow> True | _ \<Rightarrow> False)"

definition os_path_isfile :: "filesystem \<Rightarrow> path \<Rightarrow> bool" where
  "os_path_isfile fs p = (case fs p of Some (File _ _) \<Rightarrow> True | _ \<Rightarrow> False)"

definition os_stat :: "filesystem \<Rightarrow> path \<Rightarrow> exn + stat_result" where
  "os_stat fs p =
     (case fs p of
        None \<Rightarrow> Inl (FileNotFoundError p)
      | Some (File text m) \<Rightarrow> Inr \<lparr>st_size = length text, st_mtime = m\<rparr>
      | Some (Dir _ sz m) \<Rightarrow> Inr \<lparr>st_size = sz, st_mtime = m\<rparr>)"

definition os_path_getmtime :: "filesystem \<Rightarrow> path \<Rightarrow> exn + rat" where
  "os_path_getmtime fs p = (case os_stat fs p of Inl e \<Rightarrow> Inl e | Inr s \<Rightarrow> Inr (st_mtime s))"

definition open_read :: "filesystem \<Rightarrow> path \<Rightarrow> exn + string" where
  "open_read fs p =
     (case fs p of
        None \<Rightarrow> Inl (FileNotFoundError p)
      | Some (File text _) \<Rightarrow> Inr text
      | Some (Dir _ _ _) \<Rightarrow> Inl (OSError ''Is a directory''))"

definition open_write :: "rat \<Rightarrow> filesystem \<Rightarrow> path \<Rightarrow> string \<Rightarrow> exn + filesystem" where
  "open_write now fs p text =
     (case fs p of
        Some (Dir _ _ _) \<Rightarrow> Inl (OSError ''Is a directory'')
      | _ \<Rightarrow> Inr (fs(p \<mapsto> File text now)))"

text \<open>
  \<open>os.makedirs(p, exist_ok=True)\<close>; the directories above \<open>p\<close> are not modelled.
\<close>

definition os_makedirs :: "rat \<Rightarrow> filesystem \<Rightarrow> path \<Rightarrow> exn + filesystem" where
  "os_makedirs now fs p =
     (case fs p of
        None \<Rightarrow> Inr (fs(p \<mapsto> Dir [] 0 now))
      | Some (Dir _ _ _) \<Rightarrow> Inr fs
      | Some (File _ _) \<Rightarrow> Inl (OSError ''File exists''))"

subsection \<open>Paths\<close>

text \<open>
  The program's constants are Windows paths, so \<open>os.path\<close> is \<open>ntpath\<close>: both the backslash
  and the slash separate components.  Drive letters and UNC prefixes get no special
  treatment here, and the second argument of \<open>join\<close> is taken to be relative.
\<close>

definition bslash :: char where
  "bslash = CHR 0x5C"

definition is_sep :: "char \<Rightarrow> bool" where
  "is_sep c = (c = bslash \<or> c = CHR ''/'')"

definition os_path_join :: "path \<Rightarrow> path \<Rightarrow> path" where
  "os_path_join a b = (if a \<noteq> [] \<and> \<not> is_sep (last a) then a @ [bslash] @ b else a @ b)"

definition os_path_basename :: "path \<Rightarrow> string" where
  "os_path_basename p = rev (takeWhile (\<lambda>c. \<not> is_sep c) (rev p))"

text \<open>
  \<open>pathlib.Path(p)\<close>: the parts are the non-empty components other than \<open>.\<close>; \<open>name\<close> is the
  last part.  With \<open>i\<close> the index of the last dot of the name, the suffix starts at \<open>i\<close> when
  \<open>0 < i < len(name) - 1\<close> and is empty otherwise; the stem is the rest.
\<close>

fun split_seps :: "string \<Rightarrow> string \<Rightarrow> string list" where
  "split_seps cur [] = [rev cur]"
| "split_seps cur (c # cs) = (if is_sep c then rev cur # split_seps [] cs else split_seps (c # cur) cs)"

definition path_parts :: "path \<Rightarrow> string list" where
  "path_parts p = filter (\<lambda>x. x \<noteq> [] \<and> x \<noteq> ''.'') (split_seps [] p)"

definition path_name :: "path \<Rightarrow> string" where
  "path_name p = (if path_parts p = [] then [] else last (path_parts p))"

definition suffix_index :: "string \<Rightarrow> nat option" where
  "suffix_index nm =
     (let after = takeWhile (\<lambda>c. c \<noteq> CHR ''.'') (rev nm)
      in if length after = length nm then None
         else (let i = length nm - length after - 1
               in if 0 < i \<and> i < length nm - 1 then Some i else None))"

definition path_suffix :: "path \<Rightarrow> string" where
  "path_suffix p = (case suffix_index (path_name p) of None \<Rightarrow> [] | Some i \<Rightarrow> drop i (path_name p))"

definition path_stem :: "path \<Rightarrow> string" where
  "path_stem p = (case suffix_index (path_name p) of None \<Rightarrow> path_name p | Some i \<Rightarrow> take i (path_name p))"

subsection \<open>The version stamper on the file system\<close>

text \<open>Lines 98-138.  \<open>now\<close> is the time of the write.\<close>

definition set_version :: "rat \<Rightarrow> filesystem \<Rightarrow> path \<Rightarrow> int option \<Rightarrow> exn + filesystem" where
  "set_version now fs file_path version =
     (if \<not> os_path_exists fs file_path then Inl (FileNotFoundError ''BiosId.env file not found'')
      else case open_read fs file_path of
        Inl e \<Rightarrow> Inl e
      | Inr text \<Rightarrow>
          (let lines = readlines text
           in case find_curr_version_str lines of
                None \<Rightarrow> Inl (ValueError ''VERSION_FEATURE not found in BiosId.env'')
              | Some curr_version_str \<Rightarrow>
                  (case decode_hex curr_version_str of
                     Inl e \<Rightarrow> Inl e
                   | Inr curr_version \<Rightarrow>
                       (let new_version = new_version_of curr_version version;
                            new_lines = update_lines lines curr_version_str new_version
                        in open_write now fs file_path (writelines new_lines)))))"


section \<open>The configuration (lines 17-84)\<close>

definition win :: "string list \<Rightarrow> string" where
  "win parts = (case parts of [] \<Rightarrow> [] | x # xs \<Rightarrow> x @ concat (map (\<lambda>y. bslash # y) xs))"

definition DEV_LOC :: path where
  "DEV_LOC = win [''C:'', ''Users'', ''felixb'', ''BIOS'']"

definition LOCAL_BOOTLEGS :: path where
  "LOCAL_BOOTLEGS = win [''C:'', ''Users'', ''felixb'', ''BIOS'', ''Bootlegs'']"

definition NET_LOC :: path where
  "NET_LOC = win [[], [], ''wks-file.ftc.rd.hpicorp.net'', ''MAIN_LAB'', ''SHARES'', ''LAB'',
                  ''Brendon Felix'', ''Bootlegs'']"

record config =
  cfg_name :: string
  repo_loc :: path
  pltpkg_loc :: path
  bld_path :: path
  bootleg_loc :: path
  network_loc :: path
  biosid_loc :: path

definition get_repo_loc :: "string option \<Rightarrow> string \<Rightarrow> path" where
  "get_repo_loc tree dflt =
     (case tree of
        Some t \<Rightarrow> os_path_join DEV_LOC t
      | None \<Rightarrow> os_path_join DEV_LOC dflt)"

definition create_config :: "filesystem \<Rightarrow> string \<Rightarrow> string option \<Rightarrow> string \<Rightarrow> string \<Rightarrow> exn + config" where
  "create_config fs name tree default_tree biosid =
     (let repo = get_repo_loc tree default_tree
      in if \<not> os_path_exists fs repo
         then Inl (FileNotFoundError (''Repository tree not found: '' @ repo))
         else (let pltpkg = os_path_join repo ''HpPlatformPkg''
               in Inr \<lparr>cfg_name = name,
                        repo_loc = repo,
                        pltpkg_loc = pltpkg,
                        bld_path = os_path_join (os_path_join pltpkg ''BLD'') ''FV'',
                        bootleg_loc = os_path_join (os_path_join DEV_LOC ''Bootlegs'') name,
                        network_loc = os_path_join NET_LOC name,
                        biosid_loc = os_path_join pltpkg biosid\<rparr>))"

definition get_config :: "filesystem \<Rightarrow> string option \<Rightarrow> string option \<Rightarrow> exn + config" where
  "get_config fs platform tree =
     (if platform = Some ''U60''
      then create_config fs ''Glacier'' tree ''HpWintersWks'' ''MultiProject/U60Glacier/BLD/BiosId.env''
      else if platform = Some ''U61''
      then create_config fs ''Winters'' tree ''HpWintersWks'' ''MultiProject/U61Blizzard/BLD/BiosId.env''
      else if platform = Some ''U65''
      then create_config fs ''Avalanche'' tree ''HpAvalancheWks'' ''BLD/RSPS/BiosId.env''
      else if platform = Some ''X60'' \<or> platform = None
      then create_config fs ''Springs'' tree ''HpSpringsWks'' ''MultiProject/X60Steamboat/BLD/BiosId.env''
      else Inl (ValueError (''Unknown platform: '' @ (case platform of Some p \<Rightarrow> p | None \<Rightarrow> ''None''))))"

section \<open>The archiver (lines 201-215)\<close>

text \<open>
  \<open>shutil.copy2(src, dst)\<close>: a destination that is a directory stands for the file of the
  source's base name inside it; copying a file onto itself raises \<open>SameFileError\<close>; the
  copy carries the text and the modification time.
\<close>

definition copy2_target :: "filesystem \<Rightarrow> path \<Rightarrow> path \<Rightarrow> path" where
  "copy2_target fs src dst = (if os_path_isdir fs dst then os_path_join dst (os_path_basename src) else dst)"

definition shutil_copy2 :: "filesystem \<Rightarrow> path \<Rightarrow> path \<Rightarrow> exn + filesystem" where
  "shutil_copy2 fs src dst =
     (let target = copy2_target fs src dst
      in if src = target \<and> os_path_exists fs src then Inl SameFileError
         else case fs src of
                None \<Rightarrow> Inl (FileNotFoundError src)
              | Some (Dir _ _ _) \<Rightarrow> Inl (OSError ''Is a directory'')
              | Some (File text m) \<Rightarrow>
                  (case fs target of
                     Some (Dir _ _ _) \<Rightarrow> Inl (OSError ''Is a directory'')
                   | _ \<Rightarrow> Inr (fs(target \<mapsto> File text m))))"

definition bootleg_basename :: "path \<Rightarrow> string option \<Rightarrow> string" where
  "bootleg_basename binary_path app =
     (case app of
        None \<Rightarrow> os_path_basename binary_path
      | Some a \<Rightarrow> path_stem binary_path @ ''_'' @ a @ path_suffix binary_path)"

text \<open>Line 213.\<close>

definition bootleg_path :: "path \<Rightarrow> path \<Rightarrow> string option \<Rightarrow> path" where
  "bootleg_path loc binary_path app = os_path_join loc (bootleg_basename binary_path app)"

definition save_bootleg :: "rat \<Rightarrow> filesystem \<Rightarrow> path \<Rightarrow> path \<Rightarrow> string option \<Rightarrow> exn + filesystem" where
  "save_bootleg now fs loc binary_path app =
     (case (if \<not> os_path_exists fs loc then os_makedirs now fs loc else Inr fs) of
        Inl e \<Rightarrow> Inl e
      | Inr fs1 \<Rightarrow> shutil_copy2 fs1 binary_path (bootleg_path loc binary_path app))"

section \<open>The binary locator (lines 218-251)\<close>

record binary =
  bin_name :: path
  bin_size :: nat
  bin_modified :: rat

text \<open>
  \<open>glob.glob(os.path.join(path, "*.bin"))\<close>: the names of the directory that do not start
  with a dot and end in \<open>.bin\<close> (case is ignored, as \<open>fnmatch\<close> does under \<open>ntpath\<close>), each
  joined to the directory.  Nothing is found when the path is not a directory.
\<close>

definition fnmatch_bin :: "string \<Rightarrow> bool" where
  "fnmatch_bin nm = (\<not> prefix ''.'' nm \<and> suffix ''.bin'' (py_lower nm))"

definition glob_bin :: "filesystem \<Rightarrow> path \<Rightarrow> path list" where
  "glob_bin fs p =
     (case fs p of
        Some (Dir names _ _) \<Rightarrow> map (os_path_join p) (filter fnmatch_bin names)
      | _ \<Rightarrow> [])"

text \<open>Line 229.\<close>

definition valid_file :: "path \<Rightarrow> bool" where
  "valid_file f =
     (let basename = py_lower (os_path_basename f)
      in \<not> py_in ''pvt'' basename \<and> (py_in ''32'' basename \<or> py_in ''64'' basename))"

text \<open>
  \<open>max(xs, key=k)\<close>: the keys are computed from left to right, the first item with the
  greatest key wins, and an exception raised by the key function ends the loop.
\<close>

fun max_loop :: "('a \<Rightarrow> exn + rat) \<Rightarrow> 'a \<Rightarrow> rat \<Rightarrow> 'a list \<Rightarrow> exn + 'a" where
  "max_loop key best best_key [] = Inr best"
| "max_loop key best best_key (x # xs) =
     (case key x of
        Inl e \<Rightarrow> Inl e
      | Inr v \<Rightarrow> if best_key < v then max_loop key x v xs else max_loop key best best_key xs)"

fun py_max :: "('a \<Rightarrow> exn + rat) \<Rightarrow> 'a list \<Rightarrow> exn + 'a" where
  "py_max key [] = Inl (ValueError ''max() arg is an empty sequence'')"
| "py_max key (x # xs) = (case key x of Inl e \<Rightarrow> Inl e | Inr v \<Rightarrow> max_loop key x v xs)"

definition stat_binary :: "filesystem \<Rightarrow> path \<Rightarrow> exn + binary option" where
  "stat_binary fs p =
     (case os_stat fs p of
        Inl e \<Rightarrow> Inl e
      | Inr s \<Rightarrow> Inr (Some \<lparr>bin_name = p, bin_size = st_size s, bin_modified = st_mtime s\<rparr>))"

text \<open>Lines 223-230: the candidates of a directory.\<close>

definition valid_files :: "filesystem \<Rightarrow> path \<Rightarrow> path list" where
  "valid_files fs p = (let files = glob_bin fs p in filter valid_file files)"

text \<open>The body of the \<open>try\<close> (lines 221-247), falling through to line 251.\<close>

definition get_binary_try :: "filesystem \<Rightarrow> path \<Rightarrow> exn + binary option" where
  "get_binary_try fs p =
     (if os_path_isdir fs p
      then (if valid_files fs p \<noteq> []
            then (case py_max (os_path_getmtime fs) (valid_files fs p) of
                    Inl e \<Rightarrow> Inl e
                  | Inr latest_file \<Rightarrow> stat_binary fs latest_file)
            else Inr None)
      else if os_path_isfile fs p then stat_binary fs p
      else Inr None)"

text \<open>Lines 248-251: \<open>except (OSError, IOError): pass\<close>, then \<open>return None\<close>.\<close>

definition get_binary :: "filesystem \<Rightarrow> path \<Rightarrow> exn + binary option" where
  "get_binary fs p =
     (case get_binary_try fs p of
        Inl e \<Rightarrow> if is_OSError e then Inr None else Inl e
      | Inr r \<Rightarrow> Inr r)"

definition find_build :: "filesystem \<Rightarrow> path \<Rightarrow> exn + binary option" where
  "find_build fs bld = get_binary fs bld"

definition find_bootleg :: "filesystem \<Rightarrow> path \<Rightarrow> exn + binary option" where
  "find_bootleg fs loc = get_binary fs loc"

definition find_path :: "filesystem \<Rightarrow> path \<Rightarrow> exn + binary option" where
  "find_path fs p = get_binary fs p"

section \<open>The pipeline (lines 141-198 and 293-390)\<close>

text \<open>
  The parsed command line.  \<open>args.output\<close> is tested for truth (an empty string counts as
  absent), \<open>args.path\<close> and \<open>args.set_version\<close> are compared with \<open>None\<close>.
\<close>

record args =
  arg_platform :: "string option"
  arg_build :: bool
  arg_release :: bool
  arg_bootleg :: bool
  arg_save :: bool
  arg_network :: bool
  arg_flash :: bool
  arg_tree :: "string option"
  arg_path :: "string option"
  arg_append :: "string option"
  arg_output :: "string option"
  arg_decrement :: bool
  arg_set_version :: "int option"

text \<open>
  What the run cannot decide by itself: the build tool (given the file system, the command
  and the release flag, it leaves an exit status and a file system), the flashing tool (it
  exits with a status, or cannot be started), and the time of a write (one value for the
  whole run).  Paths are taken as absolute: \<open>os.chdir\<close> can fail, and has no other effect.
\<close>

datatype proc = Returned int | NotStarted

record world =
  build_tool :: "filesystem \<Rightarrow> string \<Rightarrow> bool \<Rightarrow> int \<times> filesystem"
  flash_tool :: "filesystem \<Rightarrow> path \<Rightarrow> proc"
  clock :: rat

text \<open>
  The calls a run makes, in order: each event is logged where \<open>main\<close> (or the directory
  check) makes the call.
\<close>

datatype event =
    EvPrompt string
  | EvMakedirs path
  | EvSetVersion path "int option"
  | EvBuild string bool
  | EvFindBuild path
  | EvFindBootleg path
  | EvFindPath path
  | EvSaveBootleg path path "string option"
  | EvFlash path

fun is_save :: "event \<Rightarrow> bool" where
  "is_save (EvSaveBootleg _ _ _) = True"
| "is_save _ = False"

fun is_flash :: "event \<Rightarrow> bool" where
  "is_flash (EvFlash _) = True"
| "is_flash _ = False"

fun is_stamp :: "event \<Rightarrow> bool" where
  "is_stamp (EvSetVersion _ _) = True"
| "is_stamp _ = False"

fun is_dircheck :: "event \<Rightarrow> bool" where
  "is_dircheck (EvPrompt _) = True"
| "is_dircheck (EvMakedirs _) = True"
| "is_dircheck _ = False"

fun is_obtain :: "event \<Rightarrow> bool" where
  "is_obtain (EvSetVersion _ _) = True"
| "is_obtain (EvBuild _ _) = True"
| "is_obtain (EvFindBuild _) = True"
| "is_obtain (EvFindBootleg _) = True"
| "is_obtain (EvFindPath _) = True"
| "is_obtain _ = False"

record state =
  st_fs :: filesystem
  st_stdin :: "string list"
  st_trace :: "event list"

definition log_event :: "event \<Rightarrow> state \<Rightarrow> state" where
  "log_event ev st = st\<lparr>st_trace := st_trace st @ [ev]\<rparr>"

text \<open>\<open>trace_grows P st st'\<close>: the trace of \<open>st'\<close> is that of \<open>st\<close> followed by events that satisfy \<open>P\<close>.\<close>

definition trace_grows :: "(event \<Rightarrow> bool) \<Rightarrow> state \<Rightarrow> state \<Rightarrow> bool" where
  "trace_grows P st st' = (\<exists>evs. st_trace st' = st_trace st @ evs \<and> list_all P evs)"

definition then_do :: "state \<times> (exn + 'a) \<Rightarrow> ('a \<Rightarrow> state \<Rightarrow> state \<times> (exn + 'b)) \<Rightarrow> state \<times> (exn + 'b)" where
  "then_do r f = (case r of (st, Inl e) \<Rightarrow> (st, Inl e) | (st, Inr x) \<Rightarrow> f x st)"

definition fs_step :: "(filesystem \<Rightarrow> exn + filesystem) \<Rightarrow> state \<Rightarrow> state \<times> (exn + unit)" where
  "fs_step f st = (case f (st_fs st) of Inl e \<Rightarrow> (st, Inl e) | Inr fs' \<Rightarrow> (st\<lparr>st_fs := fs'\<rparr>, Inr ()))"

subsection \<open>The build invoker (lines 141-163)\<close>

definition build_command :: "string \<Rightarrow> string" where
  "build_command name =
     (if name = ''Glacier'' then ''HpBldGlacier.bat''
      else if name = ''Winters'' then ''HpBldBlizzard.bat''
      else if name = ''Avalanche'' then ''HpBiosBuild.bat''
      else if name = ''Springs'' then ''HpBldSprings.bat''
      else ''HpBldSprings.bat'')"

definition os_chdir :: "filesystem \<Rightarrow> path \<Rightarrow> exn + unit" where
  "os_chdir fs p =
     (case fs p of
        None \<Rightarrow> Inl (FileNotFoundError p)
      | Some (File _ _) \<Rightarrow> Inl (OSError ''Not a directory'')
      | Some (Dir _ _ _) \<Rightarrow> Inr ())"

definition build :: "world \<Rightarrow> config \<Rightarrow> bool \<Rightarrow> state \<Rightarrow> state \<times> (exn + unit)" where
  "build w cfg release st =
     (case os_chdir (st_fs st) (pltpkg_loc cfg) of
        Inl e \<Rightarrow> (st, Inl e)
      | Inr _ \<Rightarrow>
          (let command = build_command (cfg_name cfg);
               (returncode, fs') = build_tool w (st_fs st) command release
           in if returncode \<noteq> 0
              then (st\<lparr>st_fs := fs'\<rparr>, Inl (RuntimeError ''Build failed''))
              else (st\<lparr>st_fs := fs'\<rparr>, Inr ())))"

subsection \<open>The directory check (lines 166-198)\<close>

definition directories_to_check :: "config \<Rightarrow> args \<Rightarrow> (string \<times> path) list" where
  "directories_to_check cfg a =
     (if arg_save a then [(''local bootlegs'', bootleg_loc cfg)] else [])
     @ (if arg_network a then [(''network bootlegs'', network_loc cfg)] else [])
     @ (case arg_output a of
          Some out \<Rightarrow> if out \<noteq> [] then [(''custom output'', out)] else []
        | None \<Rightarrow> [])"

definition skip_save :: "string \<Rightarrow> args \<Rightarrow> args" where
  "skip_save dir_type a =
     (if dir_type = ''local bootlegs'' then a\<lparr>arg_save := False\<rparr>
      else if dir_type = ''network bootlegs'' then a\<lparr>arg_network := False\<rparr>
      else if dir_type = ''custom output'' then a\<lparr>arg_output := None\<rparr>
      else a)"

text \<open>\<open>input()\<close> takes the next line of the standard input, and raises \<open>EOFError\<close> at its end.\<close>

fun check_loop :: "world \<Rightarrow> (string \<times> path) list \<Rightarrow> args \<Rightarrow> state \<Rightarrow> state \<times> (exn + args)" where
  "check_loop w [] a st = (st, Inr a)"
| "check_loop w ((dir_type, dir_path) # rest) a st =
     (if \<not> os_path_exists (st_fs st) dir_path
      then (case st_stdin st of
              [] \<Rightarrow> (log_event (EvPrompt dir_type) st, Inl EOFError)
            | answer # unread \<Rightarrow>
                (let st1 = (log_event (EvPrompt dir_type) st)\<lparr>st_stdin := unread\<rparr>;
                     response = py_lower (py_strip answer)
                 in if response \<noteq> ''y'' \<and> response \<noteq> ''yes''
                    then check_loop w rest (skip_save dir_type a) st1
                    else (case os_makedirs (clock w) (st_fs st1) dir_path of
                            Inl e \<Rightarrow>
                              (log_event (EvMakedirs dir_path) st1,
                               if is_OSError e
                               then Inl (RuntimeError (''Could not create '' @ dir_type @ '' directory: '' @ dir_path))
                               else Inl e)
                          | Inr fs' \<Rightarrow>
                              check_loop w rest a ((log_event (EvMakedirs dir_path) st1)\<lparr>st_fs := fs'\<rparr>))))
      else check_loop w rest a st)"

definition check_and_create_directories :: "world \<Rightarrow> config \<Rightarrow> args \<Rightarrow> state \<Rightarrow> state \<times> (exn + args)" where
  "check_and_create_directories w cfg a st = check_loop w (directories_to_check cfg a) a st"

subsection \<open>The flasher (lines 293-301)\<close>

definition flash :: "world \<Rightarrow> binary \<Rightarrow> state \<Rightarrow> state \<times> (exn + unit)" where
  "flash w b st =
     (case flash_tool w (st_fs st) (bin_name b) of
        NotStarted \<Rightarrow> (st, Inl (FileNotFoundError ''dpcmd''))
      | Returned returncode \<Rightarrow>
          if returncode \<noteq> 0 then (st, Inl (RuntimeError ''Flash failed'')) else (st, Inr ()))"

subsection \<open>\<open>main\<close> (lines 343-390)\<close>

text \<open>Lines 350-366: obtaining the binary.\<close>

definition stamp_version :: "world \<Rightarrow> config \<Rightarrow> args \<Rightarrow> state \<Rightarrow> state \<times> (exn + unit)" where
  "stamp_version w cfg a st =
     (case arg_set_version a of
        Some v \<Rightarrow>
          fs_step (\<lambda>fs. set_version (clock w) fs (biosid_loc cfg) (Some v))
            (log_event (EvSetVersion (biosid_loc cfg) (Some v)) st)
      | None \<Rightarrow>
          if arg_decrement a
          then fs_step (\<lambda>fs. set_version (clock w) fs (biosid_loc cfg) None)
                 (log_event (EvSetVersion (biosid_loc cfg) None) st)
          else (st, Inr ()))"

definition obtain_binary :: "world \<Rightarrow> config \<Rightarrow> args \<Rightarrow> state \<Rightarrow> state \<times> (exn + binary option)" where
  "obtain_binary w cfg a st =
     (if arg_build a
      then then_do (stamp_version w cfg a st)
             (\<lambda>_ st1. then_do (build w cfg (arg_release a)
                                 (log_event (EvBuild (build_command (cfg_name cfg)) (arg_release a)) st1))
                (\<lambda>_ st2. (log_event (EvFindBuild (bld_path cfg)) st2,
                           find_build (st_fs st2) (bld_path cfg))))
      else if arg_bootleg a
      then (log_event (EvFindBootleg (bootleg_loc cfg)) st, find_bootleg (st_fs st) (bootleg_loc cfg))
      else (case arg_path a of
              Some p \<Rightarrow> (log_event (EvFindPath p) st, find_path (st_fs st) p)
            | None \<Rightarrow> (log_event (EvFindBuild (bld_path cfg)) st, find_build (st_fs st) (bld_path cfg))))"

text \<open>Lines 368-386: the check for a binary, the save actions and the flash.\<close>

definition save_step :: "world \<Rightarrow> path \<Rightarrow> binary \<Rightarrow> args \<Rightarrow> state \<Rightarrow> state \<times> (exn + unit)" where
  "save_step w loc b a st =
     fs_step (\<lambda>fs. save_bootleg (clock w) fs loc (bin_name b) (arg_append a))
       (log_event (EvSaveBootleg loc (bin_name b) (arg_append a)) st)"

definition save_and_flash :: "world \<Rightarrow> config \<Rightarrow> args \<Rightarrow> binary option \<Rightarrow> state \<Rightarrow> state \<times> (exn + unit)" where
  "save_and_flash w cfg a found st =
     (case found of
        None \<Rightarrow> (st, Inl (RuntimeError ''No binary found''))
      | Some b \<Rightarrow>
          then_do (if arg_save a then save_step w (bootleg_loc cfg) b a st else (st, Inr ()))
            (\<lambda>_ st1. then_do (if arg_network a then save_step w (network_loc cfg) b a st1 else (st1, Inr ()))
               (\<lambda>_ st2. then_do (case arg_output a of
                                    Some out \<Rightarrow> if out \<noteq> [] then save_step w out b a st2 else (st2, Inr ())
                                  | None \<Rightarrow> (st2, Inr ()))
                  (\<lambda>_ st3. if arg_flash a
                            then flash w b (log_event (EvFlash (bin_name b)) st3)
                            else (st3, Inr ())))))"

text \<open>Lines 344-386: the body of the \<open>try\<close>.\<close>

definition main_try :: "world \<Rightarrow> args \<Rightarrow> state \<Rightarrow> state \<times> (exn + unit)" where
  "main_try w a st =
     (case get_config (st_fs st) (arg_platform a) (arg_tree a) of
        Inl e \<Rightarrow> (st, Inl e)
      | Inr cfg \<Rightarrow>
          then_do (check_and_create_directories w cfg a st)
            (\<lambda>a1 st1. then_do (obtain_binary w cfg a1 st1)
               (\<lambda>found st2. save_and_flash w cfg a1 found st2)))"

text \<open>
  Lines 388-390: every exception of the body is caught and the process exits with status 1;
  otherwise \<open>main\<close> returns and the status is 0.
\<close>

record outcome =
  exit_status :: nat
  raised :: "exn option"
  final :: state

definition main :: "world \<Rightarrow> args \<Rightarrow> state \<Rightarrow> outcome" where
  "main w a st =
     (case main_try w a st of
        (st', Inl e) \<Rightarrow> \<lparr>exit_status = 1, raised = Some e, final = st'\<rparr>
      | (st', Inr _) \<Rightarrow> \<lparr>exit_status = 0, raised = None, final = st'\<rparr>)"

subsection \<open>Frames\<close>

text \<open>
  \<open>undisturbed st st'\<close>: from \<open>st\<close> to \<open>st'\<close> the version stamper is not called, and every regular
  file of \<open>st\<close> is still there with its text and modification time, unless a save action
  logged in \<open>st'\<close> could have written to its path (the destination path of the save, or the
  source's base name under it when the destination path is a directory).
\<close>

definition undisturbed :: "state \<Rightarrow> state \<Rightarrow> bool" where
  "undisturbed st st' =
     (trace_grows (\<lambda>ev. \<not> is_stamp ev) st st'
      \<and> (\<forall>d body m.
            st_fs st d = Some (File body m)
            \<and> (\<forall>loc src app. EvSaveBootleg loc src app \<in> set (st_trace st') \<longrightarrow>
                   d \<noteq> bootleg_path loc src app
                   \<and> d \<noteq> os_path_join (bootleg_path loc src app) (os_path_basename src))
            \<longrightarrow> st_fs st' d = Some (File body m)))"

section \<open>Example inputs\<close>



definition fs_springs :: filesystem where
  "fs_springs = (\<lambda>p. None)(os_path_join DEV_LOC ''HpSpringsWks'' \<mapsto> Dir [] 0 0)"



definition fs_dangling :: filesystem where
  "fs_dangling =
     (\<lambda>p. None)(''FV'' \<mapsto> Dir [''A32.bin'', ''gone64.bin''] 0 1,
                 os_path_join ''FV'' ''A32.bin'' \<mapsto> File ''new image'' 20)"

text \<open>
  Runs of the pipeline.  The build tool of \<open>world_ok\<close> changes nothing and succeeds, and the
  flashing tool succeeds.  \<open>cfg_springs\<close> is the configuration of the default platform.
\<close>

definition world_ok :: world where
  "world_ok = \<lparr>build_tool = (\<lambda>fs command release. (0, fs)),
               flash_tool = (\<lambda>fs p. Returned 0),
               clock = 100\<rparr>"

definition springs_pkg :: path where
  "springs_pkg = os_path_join (os_path_join DEV_LOC ''HpSpringsWks'') ''HpPlatformPkg''"

definition cfg_springs :: config where
  "cfg_springs =
     \<lparr>cfg_name = ''Springs'',
      repo_loc = os_path_join DEV_LOC ''HpSpringsWks'',
      pltpkg_loc = springs_pkg,
      bld_path = os_path_join (os_path_join springs_pkg ''BLD'') ''FV'',
      bootleg_loc = os_path_join (os_path_join DEV_LOC ''Bootlegs'') ''Springs'',
      network_loc = os_path_join NET_LOC ''Springs'',
      biosid_loc = os_path_join springs_pkg ''MultiProject/X60Steamboat/BLD/BiosId.env''\<rparr>"

definition args_none :: args where
  "args_none =
     \<lparr>arg_platform = None, arg_build = False, arg_release = False, arg_bootleg = False,
      arg_save = False, arg_network = False, arg_flash = False, arg_tree = None,
      arg_path = None, arg_append = None, arg_output = None, arg_decrement = False,
      arg_set_version = None\<rparr>"

text \<open>
  The source tree with its descriptor, an empty build-output directory, and an archive
  directory holding one production binary.
\<close>

definition fs_tree :: filesystem where
  "fs_tree =
     (\<lambda>p. None)(repo_loc cfg_springs \<mapsto> Dir [''HpPlatformPkg''] 0 1,
                 pltpkg_loc cfg_springs \<mapsto> Dir [''BLD'', ''MultiProject''] 0 1,
                 bld_path cfg_springs \<mapsto> Dir [] 0 1,
                 biosid_loc cfg_springs \<mapsto> File ''VERSION_FEATURE = 05\<newline>'' 1,
                 bootleg_loc cfg_springs \<mapsto> Dir [''X60_64.bin''] 0 1,
                 os_path_join (bootleg_loc cfg_springs) ''X60_64.bin'' \<mapsto> File ''image'' 2)"

definition state_of :: "filesystem \<Rightarrow> state" where
  "state_of fs = \<lparr>st_fs = fs, st_stdin = [], st_trace = []\<rparr>"

text \<open>No binary anywhere: the fallback scan, with saving and flashing requested.\<close>

definition args_fallback :: args where
  "args_fallback = args_none\<lparr>arg_save := True, arg_flash := True\<rparr>"




text \<open>A run that reuses the archived binary and saves it to a custom directory.\<close>

definition args_reuse :: args where
  "args_reuse = args_none\<lparr>arg_bootleg := True, arg_output := Some ''out'', arg_flash := True,
                           arg_decrement := True, arg_set_version := Some 7,
                           arg_path := Some ''ignored.bin''\<rparr>"

definition fs_reuse :: filesystem where
  "fs_reuse = fs_tree(''out'' \<mapsto> Dir [] 0 1)"

text \<open>A run that reuses the archived binary and saves it to the archive directory it is in.\<close>

definition args_resave :: args where
  "args_resave = args_none\<lparr>arg_bootleg := True, arg_save := True\<rparr>"

section \<open>Hexadecimal text: encoding and decoding\<close>

lemma of_char_hex_char:
  "d < 16 \<Longrightarrow> (of_char (hex_char d) :: nat) = (if d < 10 then 48 + d else 55 + d)"
  by (simp add: hex_char_def)

lemma hex_digit_value_hex_char: "d < 16 \<Longrightarrow> hex_digit_value (hex_char d) = Some d"
  by (simp add: hex_digit_value_def of_char_hex_char Let_def)

lemma hex_char_not_special:
  assumes "d < 16"
  shows "\<not> int_isspace (hex_char d)" "hex_char d \<noteq> CHR ''-''" "hex_char d \<noteq> CHR ''+''"
    "hex_char d \<noteq> CHR ''_''" "hex_char d \<noteq> CHR ''x''" "hex_char d \<noteq> CHR ''X''"
proof -
  have n: "(of_char (hex_char d) :: nat) = (if d < 10 then 48 + d else 55 + d)"
    using assms by (rule of_char_hex_char)
  show "\<not> int_isspace (hex_char d)"
    using assms by (auto simp: int_isspace_def n)
  have "(of_char (hex_char d) :: nat) \<noteq> of_char CHR ''-''" using assms by (simp add: n)
  then show "hex_char d \<noteq> CHR ''-''" by auto
  have "(of_char (hex_char d) :: nat) \<noteq> of_char CHR ''+''" using assms by (simp add: n)
  then show "hex_char d \<noteq> CHR ''+''" by auto
  have "(of_char (hex_char d) :: nat) \<noteq> of_char CHR ''_''" using assms by (simp add: n)
  then show "hex_char d \<noteq> CHR ''_''" by auto
  have "(of_char (hex_char d) :: nat) \<noteq> of_char CHR ''x''" using assms by (simp add: n)
  then show "hex_char d \<noteq> CHR ''x''" by auto
  have "(of_char (hex_char d) :: nat) \<noteq> of_char CHR ''X''" using assms by (simp add: n)
  then show "hex_char d \<noteq> CHR ''X''" by auto
qed

lemma int_base16_two_digits:
  assumes "a < 16" "b < 16"
  shows "int_base16 [hex_char a, hex_char b] = Inr (int (16 * a + b))"
  using assms
  by (simp add: int_base16_def hex_char_not_special hex_char_not_special(2-6) [symmetric]
      hex_digit_value_hex_char hex_value_def Let_def)

lemma hex_digits_byte:
  assumes "m < 256"
  shows "replicate (2 - length (hex_digits m)) CHR ''0'' @ hex_digits m
         = [hex_char (m div 16), hex_char (m mod 16)]"
proof (cases "m < 16")
  case True
  then have "hex_digits m = [hex_char m]" by (simp add: hex_digits.simps)
  moreover have "CHR ''0'' = hex_char 0" by code_simp
  ultimately show ?thesis using True by (simp add: numeral_2_eq_2)
next
  case False
  then have "m div 16 < 16" using assms by simp
  then have "hex_digits (m div 16) = [hex_char (m div 16)]" by (simp add: hex_digits.simps)
  then show ?thesis using False by (simp add: hex_digits.simps [of m])
qed

lemma format_hex_byte:
  assumes "0 \<le> n" "n \<le> 255"
  shows "format_hex n r = [hex_char (nat n div 16), hex_char (nat n mod 16)]"
proof -
  have "nat n < 256" using assms by simp
  from hex_digits_byte [OF this] show ?thesis
    using assms by (simp add: format_hex_def format_02X_def Let_def)
qed

lemma decode_format_byte:
  assumes "0 \<le> n" "n \<le> 255"
  shows "decode_hex (format_hex n r) = Inr n"
proof -
  let ?m = "nat n"
  have m: "?m < 256" using assms by simp
  then have hi: "?m div 16 < 16" by simp
  have lo: "?m mod 16 < 16" by simp
  have "decode_hex (format_hex n r) = Inr (int (16 * (?m div 16) + ?m mod 16))"
    using int_base16_two_digits [OF hi lo] assms
    by (simp add: decode_hex_def format_hex_byte)
  also have "int (16 * (?m div 16) + ?m mod 16) = n" using assms by simp
  finally show ?thesis .
qed

lemma hex_char_upper: "d < 16 \<Longrightarrow> hex_char d \<in> set ''0123456789ABCDEF''"
proof -
  assume "d < 16"
  then have d: "d \<in> set [0..<16]" by simp
  have "list_all (\<lambda>k. hex_char k \<in> set ''0123456789ABCDEF'') [0..<16]"
    by code_simp
  with d show ?thesis unfolding list_all_iff by blast
qed

text \<open>
  Claim C8.  For every integer \<open>n\<close> with \<open>0 \<le> n \<le> 255\<close>, \<open>format_hex\<close> yields exactly two
  characters, both upper-case hexadecimal digits, and \<open>decode_hex\<close> of them returns \<open>n\<close>
  (whatever the \<open>reverse\<close> flag).
\<close>

theorem format_hex_decode_hex_roundtrip:
  assumes "0 \<le> n" "n \<le> 255"
  shows "length (format_hex n r) = 2
       \<and> set (format_hex n r) \<subseteq> set ''0123456789ABCDEF''
       \<and> decode_hex (format_hex n r) = Inr n"
proof (intro conjI)
  show "length (format_hex n r) = 2"
    using assms by (simp add: format_hex_byte)
  have "nat n div 16 < 16" using assms by simp
  moreover have "nat n mod 16 < 16" by simp
  ultimately show "set (format_hex n r) \<subseteq> set ''0123456789ABCDEF''"
    using assms hex_char_upper [of "nat n div 16"] hex_char_upper [of "nat n mod 16"]
    by (simp only: format_hex_byte) simp
  show "decode_hex (format_hex n r) = Inr n"
    using assms by (rule decode_format_byte)
qed

theorem format_hex_decode_hex_roundtrip_witness:
  "format_hex 171 False = ''AB'' \<and> decode_hex ''AB'' = Inr 171"
proof -
  have fmt: "format_hex 171 False = ''AB''" by code_simp
  have "decode_hex (format_hex 171 False) = Inr 171"
    using format_hex_decode_hex_roundtrip [of 171 False] by simp
  with fmt show ?thesis by simp
qed

section \<open>The version stamper\<close>




text \<open>What the rewrite does keep: the number of lines, and every line without the marker.\<close>

lemma update_lines_frame:
  "length (update_lines lines s v) = length lines"
  "i < length lines \<Longrightarrow> \<not> py_in marker (lines ! i) \<Longrightarrow> update_lines lines s v ! i = lines ! i"
  by (simp_all add: update_lines_def)

text \<open>
  Claim C2 fails on the code.  The second loop (lines 131-135) rewrites every line that
  contains the marker, whether or not it has an \<open>=\<close> and whether or not it is the line the
  first loop matched, and \<open>str.replace\<close> replaces every occurrence of the version text in such
  a line.  In the first file below a second line that mentions the marker is changed as
  well; in the second file the version text \<open>EA\<close> also occurs inside the marker, and the
  marker itself is rewritten.
\<close>

theorem set_version_rewrites_other_text:
  "set_version 2 ((\<lambda>p. None)(''BiosId.env'' \<mapsto> File ''VERSION_FEATURE=05\<newline># VERSION_FEATURE was 05\<newline>'' 1)) ''BiosId.env'' None
     = Inr ((\<lambda>p. None)(''BiosId.env'' \<mapsto> File ''VERSION_FEATURE=04\<newline># VERSION_FEATURE was 04\<newline>'' 2))
   \<and> set_version 2 ((\<lambda>p. None)(''BiosId.env'' \<mapsto> File ''VERSION_FEATURE=EA\<newline>'' 1)) ''BiosId.env'' None
     = Inr ((\<lambda>p. None)(''BiosId.env'' \<mapsto> File ''VERSION_F21TURE=21\<newline>'' 2))"
proof -
  have a: "find_curr_version_str (readlines ''VERSION_FEATURE=05\<newline># VERSION_FEATURE was 05\<newline>'') = Some ''05''"
    by code_simp
  have b: "decode_hex ''05'' = Inr 5" by code_simp
  have c: "writelines (update_lines (readlines ''VERSION_FEATURE=05\<newline># VERSION_FEATURE was 05\<newline>'') ''05'' 4)
           = ''VERSION_FEATURE=04\<newline># VERSION_FEATURE was 04\<newline>''"
    by code_simp
  have a': "find_curr_version_str (readlines ''VERSION_FEATURE=EA\<newline>'') = Some ''EA''"
    by code_simp
  have b': "decode_hex ''EA'' = Inr 234" by code_simp
  have c': "writelines (update_lines (readlines ''VERSION_FEATURE=EA\<newline>'') ''EA'' 33)
           = ''VERSION_F21TURE=21\<newline>''"
    by code_simp
  show ?thesis
    by (simp add: set_version_def os_path_exists_def open_read_def open_write_def Let_def
        a b c a' b' c' new_version_of_def)
qed

section \<open>The configuration\<close>

text \<open>
  Claim C10.  For every file system and every tree override, resolution with the platform
  absent gives the same result (the same record, or the same error) as resolution with
  platform \<open>X60\<close>; a configuration it yields has the codename \<open>Springs\<close>.
\<close>

theorem get_config_default_platform:
  "get_config fs None tree = get_config fs (Some ''X60'') tree
   \<and> (\<forall>cfg. get_config fs None tree = Inr cfg \<longrightarrow> cfg_name cfg = ''Springs'')"
proof
  have absent: "get_config fs None tree
        = create_config fs ''Springs'' tree ''HpSpringsWks'' ''MultiProject/X60Steamboat/BLD/BiosId.env''"
    by (simp add: get_config_def)
  have x60: "get_config fs (Some ''X60'') tree
        = create_config fs ''Springs'' tree ''HpSpringsWks'' ''MultiProject/X60Steamboat/BLD/BiosId.env''"
    by (simp add: get_config_def)
  from absent x60 show "get_config fs None tree = get_config fs (Some ''X60'') tree"
    by simp
  show "\<forall>cfg. get_config fs None tree = Inr cfg \<longrightarrow> cfg_name cfg = ''Springs''"
    unfolding absent by (auto simp: create_config_def Let_def split: if_splits)
qed

theorem get_config_default_platform_witness:
  "\<exists>cfg. get_config fs_springs None None = Inr cfg
        \<and> get_config fs_springs (Some ''X60'') None = Inr cfg
        \<and> cfg_name cfg = ''Springs''
        \<and> repo_loc cfg = os_path_join DEV_LOC ''HpSpringsWks''"
proof -
  have ex: "os_path_exists fs_springs (os_path_join DEV_LOC ''HpSpringsWks'')"
    by (simp add: os_path_exists_def fs_springs_def)
  then obtain cfg where cfg: "get_config fs_springs None None = Inr cfg"
    and repo: "repo_loc cfg = os_path_join DEV_LOC ''HpSpringsWks''"
    by (simp add: get_config_def create_config_def get_repo_loc_def Let_def)
  from get_config_default_platform [of fs_springs None] cfg
  have "get_config fs_springs (Some ''X60'') None = Inr cfg" and "cfg_name cfg = ''Springs''"
    by simp_all
  with cfg repo show ?thesis by blast
qed

section \<open>The binary locator\<close>

lemma os_stat_error: "os_stat fs p = Inl e \<Longrightarrow> is_OSError e"
  by (auto simp: os_stat_def split: option.splits node.splits)

lemma os_path_getmtime_error: "os_path_getmtime fs p = Inl e \<Longrightarrow> is_OSError e"
  by (auto simp: os_path_getmtime_def dest: os_stat_error split: sum.splits)



lemma max_loop_error:
  "max_loop key b bk xs = Inl e \<Longrightarrow> \<exists>x\<in>set xs. key x = Inl e"
  by (induction xs arbitrary: b bk) (auto split: sum.splits if_splits)



lemma py_max_error:
  "xs \<noteq> [] \<Longrightarrow> py_max key xs = Inl e \<Longrightarrow> \<exists>x\<in>set xs. key x = Inl e"
  by (cases xs) (auto split: sum.splits dest: max_loop_error)



lemma get_binary_try_error: "get_binary_try fs p = Inl e \<Longrightarrow> is_OSError e"
proof -
  assume a: "get_binary_try fs p = Inl e"
  show ?thesis
  proof (cases "os_path_isdir fs p")
    case True
    show ?thesis
    proof (cases "valid_files fs p = []")
      case True
      with a \<open>os_path_isdir fs p\<close> show ?thesis by (simp add: get_binary_try_def)
    next
      case False
      show ?thesis
      proof (cases "py_max (os_path_getmtime fs) (valid_files fs p)")
        case (Inl e')
        from py_max_error [OF False Inl] have "is_OSError e'"
          by (auto dest: os_path_getmtime_error)
        with a Inl False True show ?thesis by (simp add: get_binary_try_def)
      next
        case (Inr latest)
        with a False True show ?thesis
          by (auto simp: get_binary_try_def stat_binary_def split: sum.splits dest: os_stat_error)
      qed
    qed
  next
    case False
    with a show ?thesis
      by (auto simp: get_binary_try_def stat_binary_def split: sum.splits if_splits dest: os_stat_error)
  qed
qed






text \<open>
  Claim C7.  For every file system and path, \<open>get_binary\<close> returns a value (a binary or
  \<open>None\<close>) and never an exception.  It returns \<open>None\<close> when the path is neither a
  directory nor a regular file, and whenever the body of its \<open>try\<close> raises: every exception
  the body can raise is an \<open>OSError\<close>, which the handler swallows.
\<close>

theorem get_binary_total:
  "(\<exists>r. get_binary fs p = Inr r)
   \<and> (\<not> os_path_isdir fs p \<and> \<not> os_path_isfile fs p \<longrightarrow> get_binary fs p = Inr None)
   \<and> (\<forall>e. get_binary_try fs p = Inl e \<longrightarrow> is_OSError e \<and> get_binary fs p = Inr None)"
proof (intro conjI allI impI)
  show "\<exists>r. get_binary fs p = Inr r"
    by (cases "get_binary_try fs p") (auto simp: get_binary_def dest: get_binary_try_error)
  show "get_binary fs p = Inr None" if "\<not> os_path_isdir fs p \<and> \<not> os_path_isfile fs p"
    using that by (simp add: get_binary_def get_binary_try_def)
  show "is_OSError e" if "get_binary_try fs p = Inl e" for e
    using that by (rule get_binary_try_error)
  show "get_binary fs p = Inr None" if "get_binary_try fs p = Inl e" for e
    using that get_binary_try_error [OF that] by (simp add: get_binary_def)
qed

theorem get_binary_total_witness:
  "get_binary_try fs_dangling ''FV'' = Inl (FileNotFoundError (os_path_join ''FV'' ''gone64.bin''))
   \<and> get_binary fs_dangling ''FV'' = Inr None
   \<and> get_binary fs_dangling ''nowhere'' = Inr None"
proof -
  have tried: "get_binary_try fs_dangling ''FV'' = Inl (FileNotFoundError (os_path_join ''FV'' ''gone64.bin''))"
    by code_simp
  have absent: "\<not> os_path_isdir fs_dangling ''nowhere'' \<and> \<not> os_path_isfile fs_dangling ''nowhere''"
    by code_simp
  from get_binary_total [of fs_dangling "''FV''"] tried
  have 1: "get_binary fs_dangling ''FV'' = Inr None" by blast
  from get_binary_total [of fs_dangling "''nowhere''"] absent
  have 2: "get_binary fs_dangling ''nowhere'' = Inr None" by blast
  from tried 1 2 show ?thesis by blast
qed

section \<open>The archiver\<close>

lemma shutil_copy2_same:
  assumes "fs src = Some (File body m)" and "\<not> os_path_isdir fs src"
  shows "shutil_copy2 fs src src = Inl SameFileError"
  using assms by (simp add: shutil_copy2_def copy2_target_def os_path_exists_def Let_def)

text \<open>
  Claim C6 fails on the code.  When the source lies in the destination directory and no
  suffix is given, the destination path is the source itself: \<open>shutil.copy2\<close> raises
  \<open>SameFileError\<close> and no copy is written.  A run that reuses the archived binary and saves
  it to the archive (\<open>--bootleg --save\<close>) ends that way, with exit status 1, although the
  copy under the unchanged base name is what the claim describes.
\<close>

theorem save_bootleg_onto_itself:
  "bootleg_path (bootleg_loc cfg_springs) (os_path_join (bootleg_loc cfg_springs) ''X60_64.bin'') None
     = os_path_join (bootleg_loc cfg_springs) ''X60_64.bin''
   \<and> os_path_isdir fs_tree (bootleg_loc cfg_springs)
   \<and> fs_tree (os_path_join (bootleg_loc cfg_springs) ''X60_64.bin'') = Some (File ''image'' 2)
   \<and> save_bootleg 100 fs_tree (bootleg_loc cfg_springs)
         (os_path_join (bootleg_loc cfg_springs) ''X60_64.bin'') None = Inl SameFileError
   \<and> exit_status (main world_ok args_resave (state_of fs_tree)) = 1
   \<and> raised (main world_ok args_resave (state_of fs_tree)) = Some SameFileError
   \<and> st_trace (final (main world_ok args_resave (state_of fs_tree)))
       = [EvFindBootleg (bootleg_loc cfg_springs),
          EvSaveBootleg (bootleg_loc cfg_springs) (os_path_join (bootleg_loc cfg_springs) ''X60_64.bin'') None]"
proof -
  let ?loc = "bootleg_loc cfg_springs"
  let ?src = "os_path_join ?loc ''X60_64.bin''"
  have dest: "bootleg_path ?loc ?src None = ?src" by code_simp
  have dir: "os_path_isdir fs_tree ?loc" by code_simp
  have src: "fs_tree ?src = Some (File ''image'' 2)" by code_simp
  have nodir: "\<not> os_path_isdir fs_tree ?src" by code_simp
  have ex: "os_path_exists fs_tree ?loc" by code_simp
  have save: "save_bootleg 100 fs_tree ?loc ?src None = Inl SameFileError"
    using shutil_copy2_same [OF src nodir] by (simp add: save_bootleg_def ex dest)
  have run: "exit_status (main world_ok args_resave (state_of fs_tree)) = 1
   \<and> raised (main world_ok args_resave (state_of fs_tree)) = Some SameFileError
   \<and> st_trace (final (main world_ok args_resave (state_of fs_tree)))
       = [EvFindBootleg ?loc, EvSaveBootleg ?loc ?src None]"
    by code_simp
  from dest dir src save run show ?thesis by blast
qed

section \<open>The pipeline\<close>

lemma log_event_simps [simp]:
  "st_trace (log_event ev st) = st_trace st @ [ev]"
  "st_fs (log_event ev st) = st_fs st"
  "st_stdin (log_event ev st) = st_stdin st"
  by (simp_all add: log_event_def)

lemma then_do_simps [simp]:
  "then_do (st, Inl e) f = (st, Inl e)"
  "then_do (st, Inr x) f = f x st"
  by (simp_all add: then_do_def)

lemma trace_grows_refl [simp]: "trace_grows P st st"
  by (simp add: trace_grows_def)

lemma trace_grows_trans:
  "trace_grows P a b \<Longrightarrow> trace_grows P b c \<Longrightarrow> trace_grows P a c"
  by (auto simp: trace_grows_def)

lemma trace_grows_mono:
  "trace_grows P a b \<Longrightarrow> (\<And>ev. P ev \<Longrightarrow> Q ev) \<Longrightarrow> trace_grows Q a b"
  by (auto simp: trace_grows_def list_all_iff)

lemma trace_grows_log: "P ev \<Longrightarrow> trace_grows P st (log_event ev st)"
  by (simp add: trace_grows_def)


lemma fs_step_cases:
  assumes "fs_step f st = (st', r)"
  obtains e where "f (st_fs st) = Inl e" "st' = st" "r = Inl e"
  | fs' where "f (st_fs st) = Inr fs'" "st' = st\<lparr>st_fs := fs'\<rparr>" "r = Inr ()"
  using assms by (auto simp: fs_step_def split: sum.splits)

subsection \<open>The directory check\<close>

lemma os_makedirs_keeps:
  "os_makedirs now fs p = Inr fs' \<Longrightarrow> fs q = Some n \<Longrightarrow> fs' q = Some n"
  by (auto simp: os_makedirs_def split: option.splits node.splits)

lemma skip_save_build [simp]: "arg_build (skip_save dir_type a) = arg_build a"
  by (simp add: skip_save_def)


lemma check_loop_grows:
  "check_loop w ds a st = (st', r) \<Longrightarrow>
     trace_grows is_dircheck st st' \<and> (\<forall>q n. st_fs st q = Some n \<longrightarrow> st_fs st' q = Some n)"
proof (induction w ds a st arbitrary: st' r rule: check_loop.induct)
  case (1 w a st)
  then show ?case by simp
next
  case (2 w dir_type dir_path rest a st)
  show ?case
  proof (cases "os_path_exists (st_fs st) dir_path")
    case True
    with "2.prems" have "check_loop w rest a st = (st', r)" by simp
    from "2.IH"(3) [OF _ this] True show ?thesis by simp
  next
    case False
    show ?thesis
    proof (cases "st_stdin st")
      case Nil
      with False "2.prems" have "st' = log_event (EvPrompt dir_type) st" by simp
      then show ?thesis by (simp add: trace_grows_log)
    next
      case (Cons answer unread)
      let ?st1 = "(log_event (EvPrompt dir_type) st)\<lparr>st_stdin := unread\<rparr>"
      have g1: "trace_grows is_dircheck st ?st1"
        by (simp add: trace_grows_def)
      have fs1: "st_fs ?st1 = st_fs st" by simp
      let ?response = "py_lower (py_strip answer)"
      show ?thesis
      proof (cases "?response \<noteq> ''y'' \<and> ?response \<noteq> ''yes''")
        case True
        with False Cons "2.prems" have run: "check_loop w rest (skip_save dir_type a) ?st1 = (st', r)"
          by (simp add: Let_def)
        from "2.IH"(1) [OF False Cons refl refl True run]
        have "trace_grows is_dircheck ?st1 st'"
          and "\<forall>q n. st_fs ?st1 q = Some n \<longrightarrow> st_fs st' q = Some n"
          by simp_all
        with g1 fs1 show ?thesis by (auto intro: trace_grows_trans)
      next
        case no: False
        have ifF: "(if ?response \<noteq> ''y'' \<and> ?response \<noteq> ''yes'' then x else y) = y" for x y :: "state \<times> (exn + args)"
          using no by (rule if_not_P)
        show ?thesis
        proof (cases "os_makedirs (clock w) (st_fs ?st1) dir_path")
          case (Inl e)
          with False Cons "2.prems" have "st' = log_event (EvMakedirs dir_path) ?st1"
            by (simp add: Let_def ifF)
          then have "trace_grows is_dircheck ?st1 st'" and "st_fs st' = st_fs st"
            by (simp_all add: trace_grows_def)
          with g1 show ?thesis by (auto intro: trace_grows_trans)
        next
          case (Inr fs')
          let ?st2 = "(log_event (EvMakedirs dir_path) ?st1)\<lparr>st_fs := fs'\<rparr>"
          from False Cons Inr "2.prems" have run: "check_loop w rest a ?st2 = (st', r)"
            by (simp add: Let_def ifF)
          from "2.IH"(2) [OF False Cons refl refl no Inr run]
          have a: "trace_grows is_dircheck ?st2 st'"
            and b: "\<forall>q n. st_fs ?st2 q = Some n \<longrightarrow> st_fs st' q = Some n"
            by simp_all
          have g2: "trace_grows is_dircheck st ?st2"
            by (simp add: trace_grows_def)
          have keep: "\<forall>q n. st_fs st q = Some n \<longrightarrow> st_fs ?st2 q = Some n"
            using os_makedirs_keeps [OF Inr] by simp
          from a b g2 keep show ?thesis by (auto intro: trace_grows_trans)
        qed
      qed
    qed
  qed
qed

subsection \<open>Obtaining the binary\<close>

lemma build_keeps_trace:
  "build w cfg release st = (st', r) \<Longrightarrow> st_trace st' = st_trace st \<and> st_stdin st' = st_stdin st"
  by (auto simp: build_def Let_def split: sum.splits prod.splits if_splits)

lemma stamp_version_trace:
  assumes "stamp_version w cfg a st = (st', r)"
  shows "st_trace st' = st_trace st @
           (case arg_set_version a of
              Some v \<Rightarrow> [EvSetVersion (biosid_loc cfg) (Some v)]
            | None \<Rightarrow> if arg_decrement a then [EvSetVersion (biosid_loc cfg) None] else [])"
    and "(\<exists>e. r = Inl e) \<Longrightarrow> arg_set_version a \<noteq> None \<or> arg_decrement a"
  using assms
  by (auto simp: stamp_version_def split: option.splits if_splits elim!: fs_step_cases)

lemma obtain_binary_no_build:
  assumes "\<not> arg_build a"
  shows "obtain_binary w cfg a st =
           (if arg_bootleg a
            then (log_event (EvFindBootleg (bootleg_loc cfg)) st, get_binary (st_fs st) (bootleg_loc cfg))
            else case arg_path a of
                   Some p \<Rightarrow> (log_event (EvFindPath p) st, get_binary (st_fs st) p)
                 | None \<Rightarrow> (log_event (EvFindBuild (bld_path cfg)) st, get_binary (st_fs st) (bld_path cfg)))"
  using assms
  by (simp add: obtain_binary_def find_bootleg_def find_path_def find_build_def split: option.split)

lemma obtain_binary_build_events:
  assumes "arg_build a" and "obtain_binary w cfg a st = (st', r)"
  shows "\<exists>evs. st_trace st' = st_trace st @ evs \<and> evs \<noteq> []
           \<and> prefix evs
                ((case arg_set_version a of
                    Some v \<Rightarrow> [EvSetVersion (biosid_loc cfg) (Some v)]
                  | None \<Rightarrow> if arg_decrement a then [EvSetVersion (biosid_loc cfg) None] else [])
                 @ [EvBuild (build_command (cfg_name cfg)) (arg_release a), EvFindBuild (bld_path cfg)])"
proof -
  let ?S = "(case arg_set_version a of
                    Some v \<Rightarrow> [EvSetVersion (biosid_loc cfg) (Some v)]
                  | None \<Rightarrow> if arg_decrement a then [EvSetVersion (biosid_loc cfg) None] else [])"
  let ?B = "EvBuild (build_command (cfg_name cfg)) (arg_release a)"
  let ?F = "EvFindBuild (bld_path cfg)"
  obtain st1 r1 where s1: "stamp_version w cfg a st = (st1, r1)" by (cases "stamp_version w cfg a st")
  note t1 = stamp_version_trace [OF s1]
  show ?thesis
  proof (cases r1)
    case (Inl e)
    with s1 assms have "st' = st1" by (simp add: obtain_binary_def)
    moreover from t1(2) Inl have "?S \<noteq> []" by (auto split: option.splits)
    ultimately show ?thesis using t1(1) by (intro exI [of _ ?S]) simp
  next
    case (Inr u)
    obtain st2 r2 where s2: "build w cfg (arg_release a) (log_event ?B st1) = (st2, r2)"
      by (cases "build w cfg (arg_release a) (log_event ?B st1)")
    from build_keeps_trace [OF s2] t1(1) have t2: "st_trace st2 = st_trace st @ ?S @ [?B]" by simp
    show ?thesis
    proof (cases r2)
      case (Inl e)
      with s1 s2 Inr assms have "st' = st2" by (simp add: obtain_binary_def)
      with t2 show ?thesis by (intro exI [of _ "?S @ [?B]"]) simp
    next
      case (Inr u2)
      with s1 s2 \<open>r1 = Inr u\<close> assms have "st' = log_event ?F st2" by (simp add: obtain_binary_def)
      with t2 show ?thesis by (intro exI [of _ "?S @ [?B, ?F]"]) simp
    qed
  qed
qed

lemma obtain_binary_grows:
  assumes "obtain_binary w cfg a st = (st', r)"
  shows "trace_grows is_obtain st st'"
proof (cases "arg_build a")
  case True
  from obtain_binary_build_events [OF True assms] obtain evs where
    evs: "st_trace st' = st_trace st @ evs"
      "prefix evs
                ((case arg_set_version a of
                    Some v \<Rightarrow> [EvSetVersion (biosid_loc cfg) (Some v)]
                  | None \<Rightarrow> if arg_decrement a then [EvSetVersion (biosid_loc cfg) None] else [])
                 @ [EvBuild (build_command (cfg_name cfg)) (arg_release a), EvFindBuild (bld_path cfg)])"
    by blast
  from evs(2) have "set evs \<subseteq> set ((case arg_set_version a of
                    Some v \<Rightarrow> [EvSetVersion (biosid_loc cfg) (Some v)]
                  | None \<Rightarrow> if arg_decrement a then [EvSetVersion (biosid_loc cfg) None] else [])
                 @ [EvBuild (build_command (cfg_name cfg)) (arg_release a), EvFindBuild (bld_path cfg)])"
    by (rule set_mono_prefix)
  then have "list_all is_obtain evs"
    by (auto simp: list_all_iff split: option.splits if_splits)
  with evs(1) show ?thesis by (auto simp: trace_grows_def)
next
  case False
  from assms show ?thesis
    unfolding obtain_binary_no_build [OF False]
    by (auto simp: trace_grows_def split: if_splits option.splits)
qed

text \<open>
  Claim C5.  Whatever the options, lines 352-366 run one stage, and the calls it makes are
  these.  With \<open>--build\<close>: the version stamp if one is requested, then the build, then the
  scan of the build-output directory (the run of calls stops at the first that raises), and
  the bootleg and path options make no difference to the outcome.  Without \<open>--build\<close> and
  with \<open>--bootleg\<close>: exactly the scan of the archive directory.  With neither and a path:
  exactly the lookup of that path.  With none of the three: exactly the scan of the
  build-output directory.  The three stages without a build leave the file system as it is.
\<close>

theorem stage_selection:
  assumes "obtain_binary w cfg a st = (st', r)"
  shows "\<exists>evs. st_trace st' = st_trace st @ evs
    \<and> (arg_build a \<longrightarrow>
          evs \<noteq> [] \<and>
          prefix evs
            ((case arg_set_version a of
                Some v \<Rightarrow> [EvSetVersion (biosid_loc cfg) (Some v)]
              | None \<Rightarrow> if arg_decrement a then [EvSetVersion (biosid_loc cfg) None] else [])
             @ [EvBuild (build_command (cfg_name cfg)) (arg_release a), EvFindBuild (bld_path cfg)])
          \<and> (\<forall>b p. obtain_binary w cfg (a\<lparr>arg_bootleg := b, arg_path := p\<rparr>) st = (st', r)))
    \<and> (\<not> arg_build a \<and> arg_bootleg a \<longrightarrow>
          evs = [EvFindBootleg (bootleg_loc cfg)] \<and> r = find_bootleg (st_fs st) (bootleg_loc cfg)
          \<and> st_fs st' = st_fs st)
    \<and> (\<forall>p. \<not> arg_build a \<and> \<not> arg_bootleg a \<and> arg_path a = Some p \<longrightarrow>
          evs = [EvFindPath p] \<and> r = find_path (st_fs st) p \<and> st_fs st' = st_fs st)
    \<and> (\<not> arg_build a \<and> \<not> arg_bootleg a \<and> arg_path a = None \<longrightarrow>
          evs = [EvFindBuild (bld_path cfg)] \<and> r = find_build (st_fs st) (bld_path cfg)
          \<and> st_fs st' = st_fs st)"
proof (cases "arg_build a")
  case True
  from obtain_binary_build_events [OF True assms] obtain evs where
    evs: "st_trace st' = st_trace st @ evs" "evs \<noteq> []"
      "prefix evs
            ((case arg_set_version a of
                Some v \<Rightarrow> [EvSetVersion (biosid_loc cfg) (Some v)]
              | None \<Rightarrow> if arg_decrement a then [EvSetVersion (biosid_loc cfg) None] else [])
             @ [EvBuild (build_command (cfg_name cfg)) (arg_release a), EvFindBuild (bld_path cfg)])"
    by blast
  have "obtain_binary w cfg (a\<lparr>arg_bootleg := b, arg_path := p\<rparr>) st = obtain_binary w cfg a st" for b p
    using True by (simp add: obtain_binary_def stamp_version_def)
  with assms have same: "\<forall>b p. obtain_binary w cfg (a\<lparr>arg_bootleg := b, arg_path := p\<rparr>) st = (st', r)"
    by simp
  from evs same True show ?thesis by (intro exI [of _ evs]) simp
next
  case False
  from assms have eq: "(st', r) =
           (if arg_bootleg a
            then (log_event (EvFindBootleg (bootleg_loc cfg)) st, get_binary (st_fs st) (bootleg_loc cfg))
            else case arg_path a of
                   Some p \<Rightarrow> (log_event (EvFindPath p) st, get_binary (st_fs st) p)
                 | None \<Rightarrow> (log_event (EvFindBuild (bld_path cfg)) st, get_binary (st_fs st) (bld_path cfg)))"
    unfolding obtain_binary_no_build [OF False] by simp
  show ?thesis
  proof (cases "arg_bootleg a")
    case True
    with eq False show ?thesis
      by (intro exI [of _ "[EvFindBootleg (bootleg_loc cfg)]"]) (simp add: find_bootleg_def)
  next
    case nb: False
    show ?thesis
    proof (cases "arg_path a")
      case None
      with eq False nb show ?thesis
        by (intro exI [of _ "[EvFindBuild (bld_path cfg)]"]) (simp add: find_build_def)
    next
      case (Some p)
      with eq False nb show ?thesis
        by (intro exI [of _ "[EvFindPath p]"]) (simp add: find_path_def)
    qed
  qed
qed

theorem stage_selection_witness:
  "st_trace (fst (obtain_binary world_ok cfg_springs args_reuse (state_of fs_reuse)))
     = [EvFindBootleg (bootleg_loc cfg_springs)]
   \<and> obtain_binary world_ok cfg_springs (args_reuse\<lparr>arg_build := True\<rparr>) (state_of fs_reuse)
     = obtain_binary world_ok cfg_springs
         (args_reuse\<lparr>arg_build := True, arg_bootleg := False, arg_path := None\<rparr>) (state_of fs_reuse)
   \<and> st_trace (fst (obtain_binary world_ok cfg_springs (args_reuse\<lparr>arg_build := True\<rparr>) (state_of fs_reuse)))
     = [EvSetVersion (biosid_loc cfg_springs) (Some 7), EvBuild ''HpBldSprings.bat'' False,
        EvFindBuild (bld_path cfg_springs)]"
proof -
  let ?st = "state_of fs_reuse"
  let ?r1 = "obtain_binary world_ok cfg_springs args_reuse ?st"
  have a1: "\<not> arg_build args_reuse" "arg_bootleg args_reuse"
    by (simp_all add: args_reuse_def args_none_def)
  from stage_selection [of world_ok cfg_springs args_reuse ?st "fst ?r1" "snd ?r1"] a1
  have 1: "st_trace (fst ?r1) = [EvFindBootleg (bootleg_loc cfg_springs)]"
    by (auto simp: state_of_def)
  let ?ab = "args_reuse\<lparr>arg_build := True\<rparr>"
  let ?r2 = "obtain_binary world_ok cfg_springs ?ab ?st"
  have a2: "arg_build ?ab" by simp
  from stage_selection [of world_ok cfg_springs ?ab ?st "fst ?r2" "snd ?r2"] a2
  have "\<forall>b p. obtain_binary world_ok cfg_springs (?ab\<lparr>arg_bootleg := b, arg_path := p\<rparr>) ?st = ?r2"
    by auto
  then have 2: "?r2 = obtain_binary world_ok cfg_springs (?ab\<lparr>arg_bootleg := False, arg_path := None\<rparr>) ?st"
    by simp
  have 3: "st_trace (fst ?r2) = [EvSetVersion (biosid_loc cfg_springs) (Some 7), EvBuild ''HpBldSprings.bat'' False,
        EvFindBuild (bld_path cfg_springs)]"
    by code_simp
  from 1 2 3 show ?thesis by simp
qed

subsection \<open>No binary\<close>

text \<open>
  Claim C4.  In a run where the configuration resolves, the directory check returns, and
  the selected stage returns with no binary, \<open>main\<close> raises \<open>RuntimeError("No binary found")\<close>,
  the process exits with status 1, the run ends in the state the stage left, and none of the
  calls the run made is a save or a flash.
\<close>

theorem no_binary_no_save_no_flash:
  assumes "get_config (st_fs st) (arg_platform a) (arg_tree a) = Inr cfg"
    and "check_and_create_directories w cfg a st = (st1, Inr a1)"
    and "obtain_binary w cfg a1 st1 = (st2, Inr None)"
  shows "exit_status (main w a st) = 1
       \<and> raised (main w a st) = Some (RuntimeError ''No binary found'')
       \<and> final (main w a st) = st2
       \<and> (\<exists>evs. st_trace (final (main w a st)) = st_trace st @ evs
                \<and> (\<forall>ev\<in>set evs. \<not> is_save ev \<and> \<not> is_flash ev))"
proof -
  have run: "main_try w a st = (st2, Inl (RuntimeError ''No binary found''))"
    using assms by (simp add: main_try_def save_and_flash_def)
  then have out: "main w a st = \<lparr>exit_status = 1, raised = Some (RuntimeError ''No binary found''), final = st2\<rparr>"
    by (simp add: main_def)
  from assms(2) have "trace_grows is_dircheck st st1"
    by (simp add: check_and_create_directories_def check_loop_grows)
  then have g1: "trace_grows (\<lambda>ev. \<not> is_save ev \<and> \<not> is_flash ev) st st1"
    by (rule trace_grows_mono) (auto elim: is_dircheck.elims)
  from obtain_binary_grows [OF assms(3)]
  have g2: "trace_grows (\<lambda>ev. \<not> is_save ev \<and> \<not> is_flash ev) st1 st2"
    by (rule trace_grows_mono) (auto elim: is_obtain.elims)
  from trace_grows_trans [OF g1 g2]
  have "\<exists>evs. st_trace st2 = st_trace st @ evs \<and> (\<forall>ev\<in>set evs. \<not> is_save ev \<and> \<not> is_flash ev)"
    by (simp add: trace_grows_def list_all_iff)
  with out show ?thesis by simp
qed

lemma fs_tree_exists:
  "os_path_exists fs_tree (os_path_join DEV_LOC ''HpSpringsWks'')"
  "os_path_exists fs_tree (bootleg_loc cfg_springs)"
  by code_simp+

lemma get_config_fs_tree: "get_config fs_tree None None = Inr cfg_springs"
  using fs_tree_exists(1)
  by (simp add: get_config_def create_config_def get_repo_loc_def cfg_springs_def springs_pkg_def Let_def)

theorem no_binary_no_save_no_flash_witness:
  "exit_status (main world_ok args_fallback (state_of fs_tree)) = 1
   \<and> raised (main world_ok args_fallback (state_of fs_tree)) = Some (RuntimeError ''No binary found'')
   \<and> st_trace (final (main world_ok args_fallback (state_of fs_tree))) = [EvFindBuild (bld_path cfg_springs)]"
proof -
  let ?st = "state_of fs_tree"
  have a: "arg_platform args_fallback = None" "arg_tree args_fallback = None" "arg_save args_fallback"
    "\<not> arg_network args_fallback" "arg_output args_fallback = None" "\<not> arg_build args_fallback"
    "\<not> arg_bootleg args_fallback" "arg_path args_fallback = None"
    by (simp_all add: args_fallback_def args_none_def)
  have h1: "get_config (st_fs ?st) (arg_platform args_fallback) (arg_tree args_fallback) = Inr cfg_springs"
    by (simp add: a state_of_def get_config_fs_tree)
  have h2: "check_and_create_directories world_ok cfg_springs args_fallback ?st = (?st, Inr args_fallback)"
    using fs_tree_exists(2)
    by (simp add: check_and_create_directories_def directories_to_check_def a state_of_def)
  have none: "get_binary fs_tree (bld_path cfg_springs) = Inr None"
    by code_simp
  have h3: "obtain_binary world_ok cfg_springs args_fallback ?st
              = (log_event (EvFindBuild (bld_path cfg_springs)) ?st, Inr None)"
    by (simp add: obtain_binary_no_build a none state_of_def)
  from no_binary_no_save_no_flash [OF h1 h2 h3]
  show ?thesis by (simp add: state_of_def)
qed

subsection \<open>Runs without a build\<close>

lemma undisturbed_refl [simp]: "undisturbed st st"
  by (simp add: undisturbed_def)














end
